theory Spec2Isabelle
  imports Complex_Main
begin

section \<open>JavaScript values\<close>

text \<open>
  A JavaScript number is a finite value, one of the two infinities, or NaN. The sign of
  zero is not modelled. Every comparison and every arithmetic operation below follows the
  JavaScript rules for NaN and the infinities. The operations of this section compute on
  exact reals; the rounding of double-precision sums is added in the section on double
  precision, for the property that depends on it.
\<close>

datatype number = Fin real | PosInf | NegInf | NaN

text \<open>A property of an object typed \<open>T | null\<close> and read through \<open>Partial\<close>.\<close>

datatype 'a optional = Undefined | Null | Val 'a

text \<open>\<open>a < b\<close> on numbers: false as soon as one side is NaN.\<close>

fun num_lt :: "number \<Rightarrow> number \<Rightarrow> bool" where
  "num_lt (Fin x) (Fin y) = (x < y)"
| "num_lt (Fin x) PosInf = True"
| "num_lt NegInf (Fin y) = True"
| "num_lt NegInf PosInf = True"
| "num_lt _ _ = False"

definition num_gt :: "number \<Rightarrow> number \<Rightarrow> bool" where
  "num_gt a b = num_lt b a"

text \<open>\<open>a >= b\<close>: not the negation of \<open>a < b\<close>, since NaN fails both.\<close>

fun num_ge :: "number \<Rightarrow> number \<Rightarrow> bool" where
  "num_ge NaN _ = False"
| "num_ge _ NaN = False"
| "num_ge a b = (a = b \<or> num_lt b a)"

text \<open>\<open>a === b\<close> on numbers: NaN equals nothing.\<close>

fun num_eq :: "number \<Rightarrow> number \<Rightarrow> bool" where
  "num_eq NaN _ = False"
| "num_eq _ NaN = False"
| "num_eq a b = (a = b)"

fun num_neg :: "number \<Rightarrow> number" where
  "num_neg (Fin x) = Fin (- x)"
| "num_neg PosInf = NegInf"
| "num_neg NegInf = PosInf"
| "num_neg NaN = NaN"

fun num_add :: "number \<Rightarrow> number \<Rightarrow> number" where
  "num_add NaN _ = NaN"
| "num_add _ NaN = NaN"
| "num_add (Fin x) (Fin y) = Fin (x + y)"
| "num_add PosInf NegInf = NaN"
| "num_add NegInf PosInf = NaN"
| "num_add PosInf _ = PosInf"
| "num_add _ PosInf = PosInf"
| "num_add NegInf _ = NegInf"
| "num_add _ NegInf = NegInf"

definition num_sub :: "number \<Rightarrow> number \<Rightarrow> number" where
  "num_sub a b = num_add a (num_neg b)"

text \<open>The sign of a number that is not NaN, as \<open>-1\<close>, \<open>0\<close> or \<open>1\<close>.\<close>

fun num_sign :: "number \<Rightarrow> int" where
  "num_sign (Fin x) = (if x < 0 then - 1 else if x = 0 then 0 else 1)"
| "num_sign PosInf = 1"
| "num_sign NegInf = - 1"
| "num_sign NaN = 0"

definition inf_of_sign :: "int \<Rightarrow> number" where
  "inf_of_sign s = (if s < 0 then NegInf else PosInf)"

fun num_mul :: "number \<Rightarrow> number \<Rightarrow> number" where
  "num_mul NaN _ = NaN"
| "num_mul _ NaN = NaN"
| "num_mul (Fin x) (Fin y) = Fin (x * y)"
| "num_mul a b =
     (if num_sign a = 0 \<or> num_sign b = 0 then NaN
      else inf_of_sign (num_sign a * num_sign b))"

text \<open>
  \<open>a / b\<close>. A zero divisor is the positive zero: \<open>0 / 0\<close> is NaN and \<open>x / 0\<close> is an
  infinity with the sign of \<open>x\<close>.
\<close>

fun num_div :: "number \<Rightarrow> number \<Rightarrow> number" where
  "num_div NaN _ = NaN"
| "num_div _ NaN = NaN"
| "num_div (Fin x) (Fin y) =
     (if y = 0 then (if x = 0 then NaN else inf_of_sign (num_sign (Fin x)))
      else Fin (x / y))"
| "num_div (Fin x) _ = Fin 0"
| "num_div a (Fin y) =
     (if y < 0 then inf_of_sign (- num_sign a) else inf_of_sign (num_sign a))"
| "num_div _ _ = NaN"

text \<open>\<open>Math.min\<close> and \<open>Math.max\<close> of two arguments: NaN as soon as one is NaN.\<close>

fun Math_min :: "number \<Rightarrow> number \<Rightarrow> number" where
  "Math_min NaN _ = NaN"
| "Math_min _ NaN = NaN"
| "Math_min a b = (if num_lt b a then b else a)"

fun Math_max :: "number \<Rightarrow> number \<Rightarrow> number" where
  "Math_max NaN _ = NaN"
| "Math_max _ NaN = NaN"
| "Math_max a b = (if num_lt a b then b else a)"

text \<open>Truthiness of a number: zero and NaN are falsy.\<close>

fun truthy :: "number \<Rightarrow> bool" where
  "truthy (Fin x) = (x \<noteq> 0)"
| "truthy NaN = False"
| "truthy _ = True"

text \<open>\<open>v || d\<close> for a numeric property \<open>v\<close> and a numeric default \<open>d\<close>.\<close>

fun or_default :: "number optional \<Rightarrow> number \<Rightarrow> number" where
  "or_default (Val n) d = (if truthy n then n else d)"
| "or_default _ d = d"

text \<open>\<open>v === n\<close> for a numeric property \<open>v\<close> and a number \<open>n\<close>.\<close>

fun opt_eq_num :: "number optional \<Rightarrow> number \<Rightarrow> bool" where
  "opt_eq_num (Val m) n = num_eq m n"
| "opt_eq_num _ n = False"

section \<open>Data model\<close>

text \<open>
  The interface \<open>Passenger\<close>, every property optional as the scorer takes a
  \<open>Partial<Passenger>\<close>. \<open>Other\<close> holds the properties that the parser stores under
  header names outside the interface.
\<close>

record passenger =
  PassengerId :: "number optional"
  Survived :: "number optional"
  Pclass :: "number optional"
  Name :: "string optional"
  Sex :: "string optional"
  Age :: "number optional"
  SibSp :: "number optional"
  Parch :: "number optional"
  Ticket :: "string optional"
  Fare :: "number optional"
  Cabin :: "string optional"
  Embarked :: "string optional"
  Other :: "string \<rightharpoonup> string"

record modelStats =
  accuracy :: number
  totalPassengers :: int
  survivedCount :: int
  deathCount :: int

record predictionInput =
  pclass :: number
  sex :: string
  age :: number
  sibsp :: number
  parch :: number
  fare :: number
  embarked :: string

record prediction =
  probability :: number
  survived :: bool

text \<open>The object literal \<open>{}\<close>.\<close>

definition emptyPassenger :: passenger where
  "emptyPassenger =
     \<lparr>PassengerId = Undefined, Survived = Undefined, Pclass = Undefined, Name = Undefined,
      Sex = Undefined, Age = Undefined, SibSp = Undefined, Parch = Undefined,
      Ticket = Undefined, Fare = Undefined, Cabin = Undefined, Embarked = Undefined,
      Other = Map.empty\<rparr>"

section \<open>The scorer: predictSurvival\<close>

text \<open>
  The function updates one variable \<open>score\<close> in five blocks; each block is a function
  from the running score to the new one, in the order of the source.
\<close>

definition sexRule :: "passenger \<Rightarrow> number \<Rightarrow> number" where
  "sexRule passenger score =
     (if Sex passenger = Val ''female'' then num_add score (Fin 0.35)
      else num_sub score (Fin 0.25))"

definition classRule :: "passenger \<Rightarrow> number \<Rightarrow> number" where
  "classRule passenger score =
     (if opt_eq_num (Pclass passenger) (Fin 1) then num_add score (Fin 0.2)
      else if opt_eq_num (Pclass passenger) (Fin 2) then num_add score (Fin 0.05)
      else num_sub score (Fin 0.15))"

definition ageRule :: "passenger \<Rightarrow> number \<Rightarrow> number" where
  "ageRule passenger score =
     (let age = or_default (Age passenger) (Fin 30) in
      if num_lt age (Fin 16) then num_add score (Fin 0.1)
      else if num_gt age (Fin 60) then num_sub score (Fin 0.1)
      else score)"

definition familyRule :: "passenger \<Rightarrow> number \<Rightarrow> number" where
  "familyRule passenger score =
     (let familySize = num_add (or_default (SibSp passenger) (Fin 0))
                               (or_default (Parch passenger) (Fin 0)) in
      if num_gt familySize (Fin 0) \<and> num_lt familySize (Fin 4) then num_add score (Fin 0.05)
      else if num_ge familySize (Fin 4) then num_sub score (Fin 0.1)
      else score)"

definition fareRule :: "passenger \<Rightarrow> number \<Rightarrow> number" where
  "fareRule passenger score =
     (let fare = or_default (Fare passenger) (Fin 15) in
      if num_gt fare (Fin 50) then num_add score (Fin 0.1)
      else if num_lt fare (Fin 10) then num_sub score (Fin 0.05)
      else score)"

text \<open>The value of \<open>score\<close> when the clamp is reached.\<close>

definition score :: "passenger \<Rightarrow> number" where
  "score passenger =
     fareRule passenger (familyRule passenger (ageRule passenger
       (classRule passenger (sexRule passenger (Fin 0.5)))))"

definition predictSurvival :: "passenger \<Rightarrow> prediction" where
  "predictSurvival passenger =
     (let probability = Math_max (Fin 0) (Math_min (Fin 1) (score passenger)) in
      \<lparr>probability = probability, survived = num_gt probability (Fin 0.5)\<rparr>)"

text \<open>\<open>handlePredict\<close> stores the scorer's result as the new prediction.\<close>

definition handlePredict :: "predictionInput \<Rightarrow> prediction" where
  "handlePredict input =
     predictSurvival (emptyPassenger
       \<lparr>Sex := Val (sex input), Pclass := Val (pclass input), Age := Val (age input),
        SibSp := Val (sibsp input), Parch := Val (parch input), Fare := Val (fare input),
        Embarked := Val (embarked input)\<rparr>)"

section \<open>The summarizer: calculateModelStats\<close>

text \<open>The body of the \<open>forEach\<close>: the counter after one more passenger.\<close>

definition countCorrect :: "int \<Rightarrow> passenger \<Rightarrow> int" where
  "countCorrect correctPredictions passenger =
     (let predicted = predictSurvival passenger in
      if (survived predicted \<and> opt_eq_num (Survived passenger) (Fin 1)) \<or>
         (\<not> survived predicted \<and> opt_eq_num (Survived passenger) (Fin 0))
      then correctPredictions + 1 else correctPredictions)"

definition calculateModelStats :: "passenger list \<Rightarrow> modelStats" where
  "calculateModelStats passengers =
     (let totalPassengers = int (length passengers);
          survivedCount = int (length (filter (\<lambda>p. opt_eq_num (Survived p) (Fin 1)) passengers));
          deathCount = totalPassengers - survivedCount;
          correctPredictions = foldl countCorrect 0 passengers;
          accuracy = num_mul (num_div (Fin (real_of_int correctPredictions))
                                      (Fin (real_of_int totalPassengers))) (Fin 100)
      in \<lparr>accuracy = accuracy, totalPassengers = totalPassengers,
          survivedCount = survivedCount, deathCount = deathCount\<rparr>)"

section \<open>The CSV parser\<close>

text \<open>
  A string is a list of characters, one per code unit; the model has the code units below
  256. The three characters the parser looks for:
\<close>

abbreviation dquote :: char where
  "dquote \<equiv> CHR 0x22"

abbreviation comma :: char where
  "comma \<equiv> CHR 0x2C"

abbreviation newline :: char where
  "newline \<equiv> CHR 0x0A"

text \<open>
  The white space and line terminators that \<open>String.prototype.trim\<close> removes: tab, line
  feed, vertical tab, form feed, carriage return, space and no-break space.
\<close>

definition is_ws :: "char \<Rightarrow> bool" where
  "is_ws c = (c = CHR 0x09 \<or> c = CHR 0x0A \<or> c = CHR 0x0B \<or> c = CHR 0x0C \<or>
              c = CHR 0x0D \<or> c = CHR 0x20 \<or> c = CHR 0xA0)"

definition trim :: "string \<Rightarrow> string" where
  "trim s = rev (dropWhile is_ws (rev (dropWhile is_ws s)))"

text \<open>
  \<open>s.split(sep)\<close> for a separator of one character: the pieces between the separators,
  one piece (the empty string) for the empty string.
\<close>

fun split_str :: "char \<Rightarrow> string \<Rightarrow> string list" where
  "split_str sep [] = [[]]"
| "split_str sep (c # cs) =
     (if c = sep then [] # split_str sep cs
      else (case split_str sep cs of
              [] \<Rightarrow> [[c]]
            | piece # pieces \<Rightarrow> (c # piece) # pieces))"

text \<open>The three variables of the loop in \<open>parseCSVLine\<close>.\<close>

record lineState =
  result :: "string list"
  current :: string
  inQuotes :: bool

text \<open>One iteration of the loop, on the character \<open>line[i]\<close>.\<close>

definition lineStep :: "lineState \<Rightarrow> char \<Rightarrow> lineState" where
  "lineStep st char =
     (if char = dquote then st\<lparr>inQuotes := \<not> inQuotes st\<rparr>
      else if char = comma \<and> \<not> inQuotes st
        then st\<lparr>result := result st @ [current st], current := []\<rparr>
      else st\<lparr>current := current st @ [char]\<rparr>)"

definition lineLoop :: "string \<Rightarrow> lineState" where
  "lineLoop line = foldl lineStep \<lparr>result = [], current = [], inQuotes = False\<rparr> line"

definition parseCSVLine :: "string \<Rightarrow> string list" where
  "parseCSVLine line = (let st = lineLoop line in result st @ [current st])"

text \<open>\<open>s.replace(/"/g, '')\<close>\<close>

definition stripQuotes :: "string \<Rightarrow> string" where
  "stripQuotes s = filter (\<lambda>c. c \<noteq> dquote) s"

text \<open>
  \<open>values[index]?.replace(/"/g, '') || ''\<close>: the empty string when the row has no field
  at \<open>index\<close>.
\<close>

definition fieldValue :: "string list \<Rightarrow> nat \<Rightarrow> string" where
  "fieldValue values index =
     (if index < length values
      then (let v = stripQuotes (values ! index) in if v \<noteq> [] then v else [])
      else [])"

text \<open>
  The \<open>switch\<close> on the header name. The built-in functions \<open>parseInt\<close> and
  \<open>parseFloat\<close> are parameters: any two functions from strings to numbers. In the
  default case the assignment stores a property, except under the name \<open>__proto__\<close>:
  there it calls the prototype setter, which ignores a string.
\<close>

definition storeField ::
  "(string \<Rightarrow> number) \<Rightarrow> (string \<Rightarrow> number) \<Rightarrow> passenger \<Rightarrow> string \<Rightarrow> string \<Rightarrow> passenger" where
  "storeField parseInt parseFloat passenger header v =
     (if header = ''PassengerId''
        then passenger\<lparr>PassengerId := Val (or_default (Val (parseInt v)) (Fin 0))\<rparr>
      else if header = ''Survived''
        then passenger\<lparr>Survived := Val (or_default (Val (parseInt v)) (Fin 0))\<rparr>
      else if header = ''Pclass''
        then passenger\<lparr>Pclass := Val (or_default (Val (parseInt v)) (Fin 0))\<rparr>
      else if header = ''SibSp''
        then passenger\<lparr>SibSp := Val (or_default (Val (parseInt v)) (Fin 0))\<rparr>
      else if header = ''Parch''
        then passenger\<lparr>Parch := Val (or_default (Val (parseInt v)) (Fin 0))\<rparr>
      else if header = ''Age''
        then passenger\<lparr>Age := (if v \<noteq> [] then Val (parseFloat v) else Null)\<rparr>
      else if header = ''Fare''
        then passenger\<lparr>Fare := (if v \<noteq> [] then Val (parseFloat v) else Null)\<rparr>
      else if header = ''Name'' then passenger\<lparr>Name := Val v\<rparr>
      else if header = ''Sex'' then passenger\<lparr>Sex := Val v\<rparr>
      else if header = ''Ticket'' then passenger\<lparr>Ticket := Val v\<rparr>
      else if header = ''Cabin'' then passenger\<lparr>Cabin := Val v\<rparr>
      else if header = ''Embarked'' then passenger\<lparr>Embarked := Val v\<rparr>
      else if header = ''__proto__'' then passenger
      else passenger\<lparr>Other := (Other passenger)(header \<mapsto> v)\<rparr>)"

text \<open>The function mapped over the data lines: one passenger from one line.\<close>

definition lineToPassenger ::
  "(string \<Rightarrow> number) \<Rightarrow> (string \<Rightarrow> number) \<Rightarrow> string list \<Rightarrow> string \<Rightarrow> passenger" where
  "lineToPassenger parseInt parseFloat headers line =
     (let values = parseCSVLine line in
      foldl (\<lambda>passenger (header, index).
               storeField parseInt parseFloat passenger header (fieldValue values index))
            emptyPassenger (zip headers [0..<length headers]))"

text \<open>
  \<open>split\<close> never returns an empty array, so \<open>lines[0]\<close> is always a string; the first
  case below is never taken.
\<close>

definition parseCSV ::
  "(string \<Rightarrow> number) \<Rightarrow> (string \<Rightarrow> number) \<Rightarrow> string \<Rightarrow> passenger list" where
  "parseCSV parseInt parseFloat csvText =
     (case split_str newline (trim csvText) of
        [] \<Rightarrow> []
      | first # rest \<Rightarrow>
          (let headers = split_str comma first in
           map (lineToPassenger parseInt parseFloat headers) rest))"

section \<open>Writing a file\<close>

text \<open>
  The repository only reads files. To state what parsing gives back, these two functions
  write one: strings joined by a separator, and a field wrapped in double quotes.
\<close>

fun join_str :: "char \<Rightarrow> string list \<Rightarrow> string" where
  "join_str sep [] = []"
| "join_str sep [x] = x"
| "join_str sep (x # y # ys) = x @ sep # join_str sep (y # ys)"

definition quoted :: "string \<Rightarrow> string" where
  "quoted t = dquote # t @ [dquote]"

text \<open>
  A field is written either as it is or wrapped in quotes; a line is its written fields
  joined by commas.
\<close>

definition writeField :: "bool \<times> string \<Rightarrow> string" where
  "writeField f = (if fst f then quoted (snd f) else snd f)"

definition writeLine :: "(bool \<times> string) list \<Rightarrow> string" where
  "writeLine fs = join_str comma (map writeField fs)"

text \<open>
  A field can be written when its text has no quote character and, unless it is wrapped in
  quotes, no comma.
\<close>

definition writable :: "bool \<times> string \<Rightarrow> bool" where
  "writable f = (dquote \<notin> set (snd f) \<and> (fst f \<or> comma \<notin> set (snd f)))"

section \<open>Reading a score\<close>

text \<open>
  The finite value of a number, and what a block of the scorer adds to the running score:
  its result on the score \<open>0\<close>.
\<close>

fun the_fin :: "number \<Rightarrow> real" where
  "the_fin (Fin x) = x"
| "the_fin _ = 0"

definition contribution :: "(number \<Rightarrow> number) \<Rightarrow> real" where
  "contribution rule = the_fin (rule (Fin 0))"

section \<open>Example inputs\<close>

text \<open>
  A first-class girl of ten travelling with two relatives on an expensive ticket, and the
  default values of the prediction form.
\<close>

definition firstClassGirl :: passenger where
  "firstClassGirl = emptyPassenger
     \<lparr>Pclass := Val (Fin 1), Sex := Val ''female'', Age := Val (Fin 10),
      SibSp := Val (Fin 1), Parch := Val (Fin 1), Fare := Val (Fin 80), Embarked := Val ''C''\<rparr>"

definition defaultInput :: predictionInput where
  "defaultInput =
     \<lparr>pclass = Fin 3, sex = ''male'', age = Fin 30, sibsp = Fin 0, parch = Fin 0,
      fare = Fin 15, embarked = ''S''\<rparr>"

section \<open>The scorer in double precision\<close>

text \<open>
  The scorer above adds exact reals. The source adds IEEE 754 binary64 numbers: every
  decimal literal is the nearest double and every sum is rounded to the nearest double,
  ties to the even significand. This section has that arithmetic and the same five blocks
  on it.
\<close>

text \<open>The integral power of two \<open>2\<^sup>e\<close>, for a positive or negative exponent.\<close>

definition pow2 :: "int \<Rightarrow> real" where
  "pow2 e = (if 0 \<le> e then 2 ^ nat e else 1 / 2 ^ nat (- e))"

text \<open>The nearest integer, the even one of the two when they are equally near.\<close>

definition round_even :: "real \<Rightarrow> int" where
  "round_even q =
     (let f = \<lfloor>q\<rfloor>; d = q - of_int f in
      if d < 1 / 2 then f
      else if 1 / 2 < d then f + 1
      else if even f then f else f + 1)"

text \<open>
  The binary exponent of a positive number: \<open>binade n x 0\<close> is the \<open>e\<close> with
  \<open>2\<^sup>e \<le> x < 2\<^sup>e\<^sup>+\<^sup>1\<close>, found in at most \<open>n\<close> halvings or doublings.
\<close>

fun binade :: "nat \<Rightarrow> real \<Rightarrow> int \<Rightarrow> int" where
  "binade 0 x e = e"
| "binade (Suc n) x e =
     (if 2 \<le> x then binade n (x / 2) (e + 1)
      else if x < 1 then binade n (x * 2) (e - 1)
      else e)"

text \<open>
  Rounding a real to binary64 with an unbounded exponent upwards: 53 significant bits,
  so the unit in the last place is \<open>2\<^sup>e\<^sup>-\<^sup>5\<^sup>2\<close>, and it is \<open>2\<^sup>-\<^sup>1\<^sup>0\<^sup>7\<^sup>4\<close> for the subnormal
  numbers below \<open>2\<^sup>-\<^sup>1\<^sup>0\<^sup>2\<^sup>2\<close>. 2200 steps reach every exponent from \<open>-1074\<close> to 1024.
\<close>

definition rd :: "real \<Rightarrow> real" where
  "rd x =
     (if x = 0 then 0
      else (let e = max (binade 2200 \<bar>x\<bar> 0) (- 1022); u = pow2 (e - 52) in
            of_int (round_even (x / u)) * u))"

text \<open>The double nearest to a real: an infinity when the rounded value reaches \<open>2\<^sup>1\<^sup>0\<^sup>2\<^sup>4\<close>.\<close>

definition dbl :: "real \<Rightarrow> number" where
  "dbl x =
     (let r = rd x in
      if pow2 1024 \<le> r then PosInf else if r \<le> - pow2 1024 then NegInf else Fin r)"

text \<open>\<open>a + b\<close> and \<open>a - b\<close> on doubles: the sum of two finite numbers is rounded.\<close>

fun dadd :: "number \<Rightarrow> number \<Rightarrow> number" where
  "dadd (Fin x) (Fin y) = dbl (x + y)"
| "dadd a b = num_add a b"

definition dsub :: "number \<Rightarrow> number \<Rightarrow> number" where
  "dsub a b = dadd a (num_neg b)"

text \<open>
  The five blocks, the score and the scorer, as above with the literals and the sums in
  double precision; \<open>running\<close> is the variable \<open>score\<close> of the source. The integers that
  the scorer compares with are doubles as they are.
\<close>

definition sexRule64 :: "passenger \<Rightarrow> number \<Rightarrow> number" where
  "sexRule64 passenger running =
     (if Sex passenger = Val ''female'' then dadd running (dbl 0.35)
      else dsub running (dbl 0.25))"

definition classRule64 :: "passenger \<Rightarrow> number \<Rightarrow> number" where
  "classRule64 passenger running =
     (if opt_eq_num (Pclass passenger) (Fin 1) then dadd running (dbl 0.2)
      else if opt_eq_num (Pclass passenger) (Fin 2) then dadd running (dbl 0.05)
      else dsub running (dbl 0.15))"

definition ageRule64 :: "passenger \<Rightarrow> number \<Rightarrow> number" where
  "ageRule64 passenger running =
     (let age = or_default (Age passenger) (Fin 30) in
      if num_lt age (Fin 16) then dadd running (dbl 0.1)
      else if num_gt age (Fin 60) then dsub running (dbl 0.1)
      else running)"

definition familySize64 :: "passenger \<Rightarrow> number" where
  "familySize64 passenger =
     dadd (or_default (SibSp passenger) (Fin 0)) (or_default (Parch passenger) (Fin 0))"

definition familyRule64 :: "passenger \<Rightarrow> number \<Rightarrow> number" where
  "familyRule64 passenger running =
     (let familySize = familySize64 passenger in
      if num_gt familySize (Fin 0) \<and> num_lt familySize (Fin 4) then dadd running (dbl 0.05)
      else if num_ge familySize (Fin 4) then dsub running (dbl 0.1)
      else running)"

definition fareRule64 :: "passenger \<Rightarrow> number \<Rightarrow> number" where
  "fareRule64 passenger running =
     (let fare = or_default (Fare passenger) (Fin 15) in
      if num_gt fare (Fin 50) then dadd running (dbl 0.1)
      else if num_lt fare (Fin 10) then dsub running (dbl 0.05)
      else running)"

definition score64 :: "passenger \<Rightarrow> number" where
  "score64 passenger =
     fareRule64 passenger (familyRule64 passenger (ageRule64 passenger
       (classRule64 passenger (sexRule64 passenger (dbl 0.5)))))"

definition predictSurvival64 :: "passenger \<Rightarrow> prediction" where
  "predictSurvival64 passenger =
     (let probability = Math_max (Fin 0) (Math_min (Fin 1) (score64 passenger)) in
      \<lparr>probability = probability, survived = num_gt probability (dbl 0.5)\<rparr>)"

text \<open>
  The constants of the branches that the double scorer takes, added without rounding. Four
  blocks choose their branch as the exact blocks do; the family block chooses it on the
  rounded family size.
\<close>

definition familyConstant64 :: "passenger \<Rightarrow> real" where
  "familyConstant64 passenger =
     (let familySize = familySize64 passenger in
      if num_gt familySize (Fin 0) \<and> num_lt familySize (Fin 4) then 0.05
      else if num_ge familySize (Fin 4) then - 0.1
      else 0)"

definition branchSum64 :: "passenger \<Rightarrow> real" where
  "branchSum64 passenger =
     0.5 + contribution (sexRule passenger) + contribution (classRule passenger)
       + contribution (ageRule passenger) + familyConstant64 passenger
       + contribution (fareRule passenger)"

section \<open>Lemmas about the scorer\<close>

lemmas rule_defs = sexRule_def classRule_def ageRule_def familyRule_def fareRule_def

lemmas eval_defs = predictSurvival_def score_def rule_defs num_sub_def num_gt_def Let_def
  emptyPassenger_def firstClassGirl_def

text \<open>Each block adds a constant to a finite running score.\<close>

lemma sexRule_shift: "sexRule p (Fin s) = Fin (s + contribution (sexRule p))"
  by (simp add: sexRule_def contribution_def num_sub_def)

lemma classRule_shift: "classRule p (Fin s) = Fin (s + contribution (classRule p))"
  by (simp add: classRule_def contribution_def num_sub_def)

lemma ageRule_shift: "ageRule p (Fin s) = Fin (s + contribution (ageRule p))"
  by (simp add: ageRule_def contribution_def num_sub_def Let_def)

lemma familyRule_shift: "familyRule p (Fin s) = Fin (s + contribution (familyRule p))"
  by (simp add: familyRule_def contribution_def num_sub_def Let_def)

lemma fareRule_shift: "fareRule p (Fin s) = Fin (s + contribution (fareRule p))"
  by (simp add: fareRule_def contribution_def num_sub_def Let_def)

text \<open>The score is the base plus the five contributions, whatever the input.\<close>

lemma score_sum:
  "score p = Fin (0.5 + contribution (sexRule p) + contribution (classRule p)
     + contribution (ageRule p) + contribution (familyRule p) + contribution (fareRule p))"
  by (simp add: score_def sexRule_shift classRule_shift ageRule_shift familyRule_shift
      fareRule_shift)

lemma sex_contribution:
  "contribution (sexRule p) = (if Sex p = Val ''female'' then 0.35 else - 0.25)"
  by (simp add: sexRule_def contribution_def num_sub_def)

lemma class_contribution:
  "contribution (classRule p) =
     (if opt_eq_num (Pclass p) (Fin 1) then 0.2
      else if opt_eq_num (Pclass p) (Fin 2) then 0.05 else - 0.15)"
  by (simp add: classRule_def contribution_def num_sub_def)

lemma age_contribution:
  "contribution (ageRule p) =
     (if num_lt (or_default (Age p) (Fin 30)) (Fin 16) then 0.1
      else if num_lt (Fin 60) (or_default (Age p) (Fin 30)) then - 0.1 else 0)"
  by (simp add: ageRule_def contribution_def num_sub_def num_gt_def Let_def)

lemma class_bounds: "- 0.15 \<le> contribution (classRule p) \<and> contribution (classRule p) \<le> 0.2"
  by (simp add: class_contribution)

lemma age_bounds: "- 0.1 \<le> contribution (ageRule p) \<and> contribution (ageRule p) \<le> 0.1"
  by (simp add: age_contribution)

lemma family_bounds:
  "- 0.1 \<le> contribution (familyRule p) \<and> contribution (familyRule p) \<le> 0.05"
  by (simp add: familyRule_def contribution_def num_sub_def Let_def)

lemma fare_bounds: "- 0.05 \<le> contribution (fareRule p) \<and> contribution (fareRule p) \<le> 0.1"
  by (simp add: fareRule_def contribution_def num_sub_def Let_def)

lemma clamp_fin: "Math_max (Fin 0) (Math_min (Fin 1) (Fin s)) = Fin (max 0 (min 1 s))"
  by (simp add: max_def min_def)

lemma probability_fin:
  "probability (predictSurvival p) = Fin (max 0 (min 1 (the_fin (score p))))"
  by (simp add: predictSurvival_def score_sum clamp_fin Let_def)

text \<open>
  The age block on an age that is present, not zero and not NaN, and on an absent age.
\<close>

lemma age_present_nonzero:
  "a \<noteq> 0 \<Longrightarrow> contribution (ageRule (p\<lparr>Age := Val (Fin a)\<rparr>)) =
     (if a < 16 then 0.1 else if 60 < a then - 0.1 else 0)"
  by (simp add: age_contribution)

lemma age_absent:
  "contribution (ageRule (p\<lparr>Age := Undefined\<rparr>)) = 0 \<and>
   contribution (ageRule (p\<lparr>Age := Null\<rparr>)) = 0 \<and>
   ageRule (p\<lparr>Age := Undefined\<rparr>) = ageRule (p\<lparr>Age := Val (Fin 30)\<rparr>) \<and>
   ageRule (p\<lparr>Age := Null\<rparr>) = ageRule (p\<lparr>Age := Val (Fin 30)\<rparr>)"
  by (simp add: age_contribution ageRule_def fun_eq_iff)

text \<open>The result depends on the input only through the five blocks.\<close>

lemma same_rules_same_result:
  assumes "sexRule p = sexRule q" "classRule p = classRule q" "ageRule p = ageRule q"
    "familyRule p = familyRule q" "fareRule p = fareRule q"
  shows "predictSurvival p = predictSurvival q"
  by (simp add: predictSurvival_def score_def assms)

lemma other_rules_ignore_age:
  "sexRule (p\<lparr>Age := x\<rparr>) = sexRule p" "classRule (p\<lparr>Age := x\<rparr>) = classRule p"
  "familyRule (p\<lparr>Age := x\<rparr>) = familyRule p" "fareRule (p\<lparr>Age := x\<rparr>) = fareRule p"
  by (simp_all add: rule_defs fun_eq_iff)

lemma other_rules_ignore_fare:
  "sexRule (p\<lparr>Fare := x\<rparr>) = sexRule p" "classRule (p\<lparr>Fare := x\<rparr>) = classRule p"
  "ageRule (p\<lparr>Fare := x\<rparr>) = ageRule p" "familyRule (p\<lparr>Fare := x\<rparr>) = familyRule p"
  by (simp_all add: rule_defs fun_eq_iff)

section \<open>Lemmas about double precision\<close>

text \<open>Rules that let the simplifier round a number given as a numeral.\<close>

lemma binade_numeral:
  "binade (numeral k) x e =
     (if 2 \<le> x then binade (pred_numeral k) (x / 2) (e + 1)
      else if x < 1 then binade (pred_numeral k) (x * 2) (e - 1)
      else e)"
  by (simp add: numeral_eq_Suc)

lemmas rd_eval = rd_def dbl_def pow2_def round_even_def binade_numeral Let_def

text \<open>
  Rounding moves a number below 2 by at most half a unit in the last place of the numbers
  between 1 and 2.
\<close>

lemma pow2_pos: "0 < pow2 e"
  by (simp add: pow2_def)

lemma pow2_mono: "e \<le> e' \<Longrightarrow> pow2 e \<le> pow2 e'"
proof -
  have "pow2 k = 2 powi k" for k
    by (simp add: pow2_def power_int_def field_simps)
  then show "e \<le> e' \<Longrightarrow> pow2 e \<le> pow2 e'"
    by (simp add: power_int_increasing)
qed

lemma round_even_near: "\<bar>real_of_int (round_even q) - q\<bar> \<le> 1 / 2"
  unfolding round_even_def Let_def by (auto simp: abs_if) linarith+

lemma binade_small: "x < 2 \<Longrightarrow> binade n x e \<le> e"
proof (induction n arbitrary: x e)
  case 0
  then show ?case by simp
next
  case (Suc n)
  show ?case
  proof (cases "x < 1")
    case True
    then have "binade n (x * 2) (e - 1) \<le> e - 1"
      by (intro Suc.IH) simp
    then show ?thesis using True Suc.prems by simp
  next
    case False
    then show ?thesis using Suc.prems by simp
  qed
qed

lemma rd_error:
  assumes "\<bar>x\<bar> < 2"
  shows "\<bar>rd x - x\<bar> \<le> 1 / 2 ^ 53"
proof (cases "x = 0")
  case True
  then show ?thesis by (simp add: rd_def)
next
  case False
  define e where "e = max (binade 2200 \<bar>x\<bar> 0) (- 1022)"
  define u where "u = pow2 (e - 52)"
  have "e \<le> 0"
    using binade_small [OF assms, of 2200 0] by (simp add: e_def)
  then have "u \<le> pow2 (- 52)"
    unfolding u_def by (intro pow2_mono) simp
  then have u_le: "u \<le> 1 / 2 ^ 52"
    by (simp add: pow2_def)
  have u_pos: "0 < u"
    by (simp add: u_def pow2_pos)
  have rd: "rd x = real_of_int (round_even (x / u)) * u"
    using False by (simp add: rd_def e_def u_def Let_def)
  have "rd x - x = (real_of_int (round_even (x / u)) - x / u) * u"
    using u_pos by (simp add: rd left_diff_distrib)
  then have "\<bar>rd x - x\<bar> = \<bar>real_of_int (round_even (x / u)) - x / u\<bar> * u"
    using u_pos by (simp add: abs_mult)
  also have "\<dots> \<le> 1 / 2 * u"
    using round_even_near [of "x / u"] u_pos by (intro mult_right_mono) simp_all
  also have "\<dots> \<le> 1 / 2 * (1 / 2 ^ 52)"
    using u_le by simp
  finally show ?thesis by simp
qed

lemma dbl_small:
  assumes "\<bar>x\<bar> < 2"
  shows "dbl x = Fin (rd x)"
proof -
  have "\<bar>rd x\<bar> < 3"
    using rd_error [OF assms] assms by (simp add: abs_if split: if_splits)
  moreover have "(3::real) \<le> pow2 1024"
  proof -
    have "(2::real) ^ 2 \<le> 2 ^ 1024" by (intro power_increasing) simp_all
    then show ?thesis by (simp add: pow2_def)
  qed
  ultimately show ?thesis
    by (simp add: dbl_def Let_def abs_if split: if_splits)
qed

text \<open>
  One sum of the scorer: the literal and the sum are rounded, so the result is within
  \<open>2\<^sup>-\<^sup>5\<^sup>2\<close> of the exact sum.
\<close>

lemma dadd_step:
  assumes "\<bar>s\<bar> \<le> 3 / 2" "\<bar>c\<bar> \<le> 2 / 5"
  shows "\<exists>s'. dadd (Fin s) (dbl c) = Fin s' \<and> \<bar>s' - (s + c)\<bar> \<le> 1 / 2 ^ 52"
proof -
  have "\<bar>c\<bar> < 2" using assms(2) by simp
  then have c: "dbl c = Fin (rd c)" and ec: "\<bar>rd c - c\<bar> \<le> 1 / 2 ^ 53"
    by (rule dbl_small, rule rd_error)
  have small: "\<bar>s + rd c\<bar> < 2"
    using assms ec by (simp add: abs_if split: if_splits)
  have "dadd (Fin s) (dbl c) = Fin (rd (s + rd c))"
    by (simp add: c dbl_small [OF small])
  moreover have "\<bar>rd (s + rd c) - (s + c)\<bar> \<le> 1 / 2 ^ 52"
    using rd_error [OF small] ec by (simp add: abs_if split: if_splits)
  ultimately show ?thesis by blast
qed

lemma dsub_step:
  assumes "\<bar>s\<bar> \<le> 3 / 2" "\<bar>c\<bar> \<le> 2 / 5"
  shows "\<exists>s'. dsub (Fin s) (dbl c) = Fin s' \<and> \<bar>s' - (s - c)\<bar> \<le> 1 / 2 ^ 52"
proof -
  have "\<bar>c\<bar> < 2" using assms(2) by simp
  then have c: "dbl c = Fin (rd c)" and ec: "\<bar>rd c - c\<bar> \<le> 1 / 2 ^ 53"
    by (rule dbl_small, rule rd_error)
  have small: "\<bar>s - rd c\<bar> < 2"
    using assms ec by (simp add: abs_if split: if_splits)
  have "dsub (Fin s) (dbl c) = Fin (rd (s - rd c))"
    using dbl_small [OF small] by (simp add: c dsub_def)
  moreover have "\<bar>rd (s - rd c) - (s - c)\<bar> \<le> 1 / 2 ^ 52"
    using rd_error [OF small] ec by (simp add: abs_if split: if_splits)
  ultimately show ?thesis by blast
qed

lemma sexRule64_step:
  assumes "\<bar>s\<bar> \<le> 3 / 2"
  shows "\<exists>s'. sexRule64 p (Fin s) = Fin s' \<and>
              \<bar>s' - (s + contribution (sexRule p))\<bar> \<le> 1 / 2 ^ 52"
  using dadd_step [OF assms, of "0.35"] dsub_step [OF assms, of "0.25"]
  by (simp add: sexRule64_def sex_contribution)

lemma classRule64_step:
  assumes "\<bar>s\<bar> \<le> 3 / 2"
  shows "\<exists>s'. classRule64 p (Fin s) = Fin s' \<and>
              \<bar>s' - (s + contribution (classRule p))\<bar> \<le> 1 / 2 ^ 52"
  using dadd_step [OF assms, of "0.2"] dadd_step [OF assms, of "0.05"]
    dsub_step [OF assms, of "0.15"]
  by (simp add: classRule64_def class_contribution)

lemma ageRule64_step:
  assumes "\<bar>s\<bar> \<le> 3 / 2"
  shows "\<exists>s'. ageRule64 p (Fin s) = Fin s' \<and>
              \<bar>s' - (s + contribution (ageRule p))\<bar> \<le> 1 / 2 ^ 52"
  using dadd_step [OF assms, of "0.1"] dsub_step [OF assms, of "0.1"]
  by (simp add: ageRule64_def age_contribution num_gt_def Let_def)

lemma familyRule64_step:
  assumes "\<bar>s\<bar> \<le> 3 / 2"
  shows "\<exists>s'. familyRule64 p (Fin s) = Fin s' \<and>
              \<bar>s' - (s + familyConstant64 p)\<bar> \<le> 1 / 2 ^ 52"
  using dadd_step [OF assms, of "0.05"] dsub_step [OF assms, of "0.1"]
  by (simp add: familyRule64_def familyConstant64_def Let_def)

lemma fare_contribution:
  "contribution (fareRule p) =
     (if num_lt (Fin 50) (or_default (Fare p) (Fin 15)) then 0.1
      else if num_lt (or_default (Fare p) (Fin 15)) (Fin 10) then - 0.05 else 0)"
  by (simp add: fareRule_def contribution_def num_sub_def num_gt_def Let_def)

lemma fareRule64_step:
  assumes "\<bar>s\<bar> \<le> 3 / 2"
  shows "\<exists>s'. fareRule64 p (Fin s) = Fin s' \<and>
              \<bar>s' - (s + contribution (fareRule p))\<bar> \<le> 1 / 2 ^ 52"
  using dadd_step [OF assms, of "0.1"] dsub_step [OF assms, of "0.05"]
  by (simp add: fareRule64_def fare_contribution num_gt_def Let_def)

lemma familyConstant64_bounds: "- 0.1 \<le> familyConstant64 p \<and> familyConstant64 p \<le> 0.05"
  by (simp add: familyConstant64_def Let_def)

lemma dbl_half: "dbl 0.5 = Fin 0.5"
  by (simp add: rd_eval)

lemma score64_close:
  "\<exists>s. score64 p = Fin s \<and> \<bar>s - branchSum64 p\<bar> \<le> 5 / 2 ^ 52"
proof -
  note b = class_bounds [of p] age_bounds [of p] familyConstant64_bounds [of p]
    fare_bounds [of p]
  have a: "contribution (sexRule p) = 0.35 \<or> contribution (sexRule p) = - 0.25"
    by (simp add: sex_contribution)
  obtain s1 where s1: "sexRule64 p (Fin 0.5) = Fin s1"
    "\<bar>s1 - (0.5 + contribution (sexRule p))\<bar> \<le> 1 / 2 ^ 52"
    using sexRule64_step [of "0.5" p] by auto
  have "\<bar>s1\<bar> \<le> 3 / 2" using s1(2) a by (auto simp: abs_if split: if_splits)
  then obtain s2 where s2: "classRule64 p (Fin s1) = Fin s2"
    "\<bar>s2 - (s1 + contribution (classRule p))\<bar> \<le> 1 / 2 ^ 52"
    using classRule64_step [of s1 p] by auto
  have "\<bar>s2\<bar> \<le> 3 / 2" using s1(2) s2(2) a b by (auto simp: abs_if split: if_splits)
  then obtain s3 where s3: "ageRule64 p (Fin s2) = Fin s3"
    "\<bar>s3 - (s2 + contribution (ageRule p))\<bar> \<le> 1 / 2 ^ 52"
    using ageRule64_step [of s2 p] by auto
  have "\<bar>s3\<bar> \<le> 3 / 2"
    using s1(2) s2(2) s3(2) a b by (auto simp: abs_if split: if_splits)
  then obtain s4 where s4: "familyRule64 p (Fin s3) = Fin s4"
    "\<bar>s4 - (s3 + familyConstant64 p)\<bar> \<le> 1 / 2 ^ 52"
    using familyRule64_step [of s3 p] by auto
  have "\<bar>s4\<bar> \<le> 3 / 2"
    using s1(2) s2(2) s3(2) s4(2) a b by (auto simp: abs_if split: if_splits)
  then obtain s5 where s5: "fareRule64 p (Fin s4) = Fin s5"
    "\<bar>s5 - (s4 + contribution (fareRule p))\<bar> \<le> 1 / 2 ^ 52"
    using fareRule64_step [of s4 p] by auto
  have "score64 p = Fin s5"
    by (simp only: score64_def dbl_half s1(1) s2(1) s3(1) s4(1) s5(1))
  moreover have "\<bar>s5 - branchSum64 p\<bar> \<le> 5 / 2 ^ 52"
    using s1(2) s2(2) s3(2) s4(2) s5(2) unfolding branchSum64_def by linarith
  ultimately show ?thesis by blast
qed

lemma probability64_fin:
  "score64 p = Fin s \<Longrightarrow> probability (predictSurvival64 p) = Fin (max 0 (min 1 s))"
  by (simp add: predictSurvival64_def clamp_fin Let_def)

lemma branchSum64_sex:
  "branchSum64 (p\<lparr>Sex := Val ''female''\<rparr>) = branchSum64 (p\<lparr>Sex := Val ''male''\<rparr>) + 0.6"
  by (simp add: branchSum64_def contribution_def rule_defs familyConstant64_def
      familySize64_def num_sub_def)

lemma branchSum64_class:
  "branchSum64 (p\<lparr>Pclass := Val (Fin 1)\<rparr>) = branchSum64 (p\<lparr>Pclass := Val (Fin 3)\<rparr>) + 0.35"
  by (simp add: branchSum64_def contribution_def rule_defs familyConstant64_def
      familySize64_def num_sub_def)

lemma branchSum64_male:
  "- 0.15 \<le> branchSum64 (p\<lparr>Sex := Val ''male''\<rparr>) \<and> branchSum64 (p\<lparr>Sex := Val ''male''\<rparr>) \<le> 0.7"
  using class_bounds [of "p\<lparr>Sex := Val ''male''\<rparr>"] age_bounds [of "p\<lparr>Sex := Val ''male''\<rparr>"]
    familyConstant64_bounds [of "p\<lparr>Sex := Val ''male''\<rparr>"]
    fare_bounds [of "p\<lparr>Sex := Val ''male''\<rparr>"]
  by (simp add: branchSum64_def sex_contribution)

lemma branchSum64_third:
  "- 0.15 \<le> branchSum64 (p\<lparr>Pclass := Val (Fin 3)\<rparr>) \<and>
   branchSum64 (p\<lparr>Pclass := Val (Fin 3)\<rparr>) \<le> 0.95"
  using age_bounds [of "p\<lparr>Pclass := Val (Fin 3)\<rparr>"]
    familyConstant64_bounds [of "p\<lparr>Pclass := Val (Fin 3)\<rparr>"]
    fare_bounds [of "p\<lparr>Pclass := Val (Fin 3)\<rparr>"]
  by (simp add: branchSum64_def sex_contribution class_contribution)

text \<open>Two scores near two sums that differ by d, the lower sum below 1 and the upper sum above 0.\<close>

lemma clamp_increase:
  fixes a b lo hi d :: real
  assumes a: "\<bar>a - lo\<bar> \<le> 5 / 2 ^ 52" and b: "\<bar>b - hi\<bar> \<le> 5 / 2 ^ 52"
    and d: "hi = lo + d" "3 / 10 \<le> d" and lo: "- 3 / 20 \<le> lo" "lo \<le> 19 / 20"
  shows "\<bar>b - a - d\<bar> \<le> 1 / 2 ^ 48"
    and "max 0 (min 1 a) < max 0 (min 1 b)"
    and "0 \<le> a \<Longrightarrow> b \<le> 1 \<Longrightarrow> max 0 (min 1 a) = a \<and> max 0 (min 1 b) = b"
proof -
  show "\<bar>b - a - d\<bar> \<le> 1 / 2 ^ 48"
    using a b d(1) by (simp add: abs_if split: if_splits)
  have "a < b" "a < 1" "0 < b"
    using a b d lo by (simp_all add: abs_if split: if_splits)
  then show "max 0 (min 1 a) < max 0 (min 1 b)"
    by (simp add: max_def min_def)
  show "0 \<le> a \<Longrightarrow> b \<le> 1 \<Longrightarrow> max 0 (min 1 a) = a \<and> max 0 (min 1 b) = b"
    using \<open>a < 1\<close> \<open>0 < b\<close> by (simp add: max_def min_def)
qed

text \<open>The double scorer, too, returns a finite probability between 0 and 1.\<close>

lemma probability64_in_unit_interval:
  "\<exists>pr. probability (predictSurvival64 p) = Fin pr \<and> 0 \<le> pr \<and> pr \<le> 1"
proof -
  obtain s where "score64 p = Fin s"
    using score64_close [of p] by blast
  then have "probability (predictSurvival64 p) = Fin (max 0 (min 1 s))"
    by (rule probability64_fin)
  then show ?thesis by simp
qed

text \<open>The scores of a child of one year, evaluated in double precision.\<close>

lemmas eval64_defs = score64_def predictSurvival64_def sexRule64_def classRule64_def
  ageRule64_def familyRule64_def familySize64_def fareRule64_def dsub_def num_gt_def
  emptyPassenger_def rd_eval

lemma child_scores64:
  "score64 (emptyPassenger\<lparr>Age := Val (Fin 1), Sex := Val ''male''\<rparr>) =
     Fin (3602879701896397 / 2 ^ 54)"
  "score64 (emptyPassenger\<lparr>Age := Val (Fin 1), Sex := Val ''female''\<rparr>) =
     Fin (7205759403792793 / 2 ^ 53)"
  "score64 (emptyPassenger\<lparr>Age := Val (Fin 1), Pclass := Val (Fin 3)\<rparr>) =
     Fin (3602879701896397 / 2 ^ 54)"
  "score64 (emptyPassenger\<lparr>Age := Val (Fin 1), Pclass := Val (Fin 1)\<rparr>) =
     Fin (2476979795053773 / 2 ^ 52)"
  by (simp_all add: eval64_defs)

section \<open>Claims about the scorer\<close>

text \<open>
  C1. For every input of \<open>predictSurvival\<close>, also the empty object and inputs whose
  numeric properties are NaN, infinite or absent, the result is a finite probability
  between 0 and 1, and the verdict is true exactly when the probability is greater than 0.5.
  The model is a total function: no operation of the scorer can throw.
\<close>

theorem predictSurvival_probability_in_unit_interval:
  "\<exists>pr. probability (predictSurvival p) = Fin pr \<and> 0 \<le> pr \<and> pr \<le> 1 \<and>
        survived (predictSurvival p) = (0.5 < pr)"
  by (simp add: predictSurvival_def score_sum clamp_fin num_gt_def Let_def)

theorem predictSurvival_probability_in_unit_interval_witness:
  "\<exists>pr. probability (predictSurvival (emptyPassenger\<lparr>Age := Val NaN, Fare := Val NaN\<rparr>)) = Fin pr
        \<and> 0 \<le> pr \<and> pr \<le> 1 \<and>
        survived (predictSurvival (emptyPassenger\<lparr>Age := Val NaN, Fare := Val NaN\<rparr>)) = (0.5 < pr)"
  by (rule predictSurvival_probability_in_unit_interval)

text \<open>
  C2. The claim asks for the child adjustment of +0.10 at an age that is present and equal
  to 0. The scorer reads the age with \<open>passenger.Age || 30\<close>, and 0 is falsy: an age of 0
  is replaced by 30 and the age block adds nothing. A woman of age 0 with no other property
  gets 0.70, where the claim gives 0.80.
\<close>

theorem age_zero_gets_no_child_adjustment:
  "contribution (ageRule (p\<lparr>Age := Val (Fin 0)\<rparr>)) = 0 \<and>
   predictSurvival (emptyPassenger\<lparr>Sex := Val ''female'', Age := Val (Fin 0)\<rparr>) =
     \<lparr>probability = Fin 0.7, survived = True\<rparr> \<and>
   predictSurvival (emptyPassenger\<lparr>Sex := Val ''female'', Age := Val (Fin 1)\<rparr>) =
     \<lparr>probability = Fin 0.8, survived = True\<rparr>"
  by (simp add: age_contribution eval_defs)

text \<open>
  C3 as stated fails where the clamp cuts: for the first-class girl the probability is 1
  as a female and 0.70 as a male, and 1 in first class and 0.95 in third class. This is so
  in exact arithmetic and in double precision.
\<close>

theorem exact_increase_counterexample:
  "the_fin (probability (predictSurvival (firstClassGirl\<lparr>Sex := Val ''female''\<rparr>)))
     - the_fin (probability (predictSurvival (firstClassGirl\<lparr>Sex := Val ''male''\<rparr>))) \<noteq> 0.6 \<and>
   the_fin (probability (predictSurvival (firstClassGirl\<lparr>Pclass := Val (Fin 1)\<rparr>)))
     - the_fin (probability (predictSurvival (firstClassGirl\<lparr>Pclass := Val (Fin 3)\<rparr>))) \<noteq> 0.35 \<and>
   dsub (probability (predictSurvival64 (firstClassGirl\<lparr>Sex := Val ''female''\<rparr>)))
        (probability (predictSurvival64 (firstClassGirl\<lparr>Sex := Val ''male''\<rparr>))) \<noteq> dbl 0.6 \<and>
   dsub (probability (predictSurvival64 (firstClassGirl\<lparr>Pclass := Val (Fin 1)\<rparr>)))
        (probability (predictSurvival64 (firstClassGirl\<lparr>Pclass := Val (Fin 3)\<rparr>))) \<noteq> dbl 0.35"
proof -
  have "the_fin (probability (predictSurvival (firstClassGirl\<lparr>Sex := Val ''female''\<rparr>)))
     - the_fin (probability (predictSurvival (firstClassGirl\<lparr>Sex := Val ''male''\<rparr>))) \<noteq> 0.6 \<and>
   the_fin (probability (predictSurvival (firstClassGirl\<lparr>Pclass := Val (Fin 1)\<rparr>)))
     - the_fin (probability (predictSurvival (firstClassGirl\<lparr>Pclass := Val (Fin 3)\<rparr>))) \<noteq> 0.35"
    by (simp add: eval_defs)
  moreover
  have "dsub (probability (predictSurvival64 (firstClassGirl\<lparr>Sex := Val ''female''\<rparr>)))
        (probability (predictSurvival64 (firstClassGirl\<lparr>Sex := Val ''male''\<rparr>))) \<noteq> dbl 0.6"
    by (simp add: eval64_defs firstClassGirl_def)
  moreover
  have "dsub (probability (predictSurvival64 (firstClassGirl\<lparr>Pclass := Val (Fin 1)\<rparr>)))
        (probability (predictSurvival64 (firstClassGirl\<lparr>Pclass := Val (Fin 3)\<rparr>))) \<noteq> dbl 0.35"
    by (simp add: eval64_defs firstClassGirl_def)
  ultimately show ?thesis by simp
qed

text \<open>
  C3, amended, on the scorer in double precision. With all other properties fixed,
  changing the sex from male to female strictly increases the returned probability. The
  two scores before the clamp differ by 0.60 up to the rounding of the sums: their
  difference is within \<open>2\<^sup>-\<^sup>4\<^sup>8\<close> of 0.60. When neither score is clamped (the male score is at
  least 0 and the female score at most 1) the returned probabilities are these scores, so
  they differ by 0.60 up to that rounding, and not always by the double 0.6. Changing the
  class from 3 to 1 does the same with 0.35.
\<close>

theorem sex_and_class_change_in_doubles:
  fixes p :: passenger
  defines "pm \<equiv> p\<lparr>Sex := Val ''male''\<rparr>" and "pf \<equiv> p\<lparr>Sex := Val ''female''\<rparr>"
    and "p3 \<equiv> p\<lparr>Pclass := Val (Fin 3)\<rparr>" and "p1 \<equiv> p\<lparr>Pclass := Val (Fin 1)\<rparr>"
  shows "(\<exists>sm sf. score64 pm = Fin sm \<and> score64 pf = Fin sf \<and>
            \<bar>sf - sm - 0.6\<bar> \<le> 1 / 2 ^ 48 \<and>
            num_lt (probability (predictSurvival64 pm)) (probability (predictSurvival64 pf)) \<and>
            (0 \<le> sm \<and> sf \<le> 1 \<longrightarrow>
               probability (predictSurvival64 pm) = Fin sm \<and>
               probability (predictSurvival64 pf) = Fin sf)) \<and>
         (\<exists>s3 s1. score64 p3 = Fin s3 \<and> score64 p1 = Fin s1 \<and>
            \<bar>s1 - s3 - 0.35\<bar> \<le> 1 / 2 ^ 48 \<and>
            num_lt (probability (predictSurvival64 p3)) (probability (predictSurvival64 p1)) \<and>
            (0 \<le> s3 \<and> s1 \<le> 1 \<longrightarrow>
               probability (predictSurvival64 p3) = Fin s3 \<and>
               probability (predictSurvival64 p1) = Fin s1))"
proof -
  obtain sm where sm: "score64 pm = Fin sm" "\<bar>sm - branchSum64 pm\<bar> \<le> 5 / 2 ^ 52"
    using score64_close [of pm] by auto
  obtain sf where sf: "score64 pf = Fin sf" "\<bar>sf - branchSum64 pf\<bar> \<le> 5 / 2 ^ 52"
    using score64_close [of pf] by auto
  obtain s3 where s3: "score64 p3 = Fin s3" "\<bar>s3 - branchSum64 p3\<bar> \<le> 5 / 2 ^ 52"
    using score64_close [of p3] by auto
  obtain s1 where s1: "score64 p1 = Fin s1" "\<bar>s1 - branchSum64 p1\<bar> \<le> 5 / 2 ^ 52"
    using score64_close [of p1] by auto
  have sex: "branchSum64 pf = branchSum64 pm + 0.6"
    "- 3 / 20 \<le> branchSum64 pm" "branchSum64 pm \<le> 19 / 20"
    using branchSum64_male [of p] by (simp_all add: pm_def pf_def branchSum64_sex)
  have cls: "branchSum64 p1 = branchSum64 p3 + 0.35"
    "- 3 / 20 \<le> branchSum64 p3" "branchSum64 p3 \<le> 19 / 20"
    using branchSum64_third [of p] by (simp_all add: p3_def p1_def branchSum64_class)
  note s = clamp_increase [OF sm(2) sf(2) sex(1) _ sex(2,3)]
  note c = clamp_increase [OF s3(2) s1(2) cls(1) _ cls(2,3)]
  have "\<bar>sf - sm - 0.6\<bar> \<le> 1 / 2 ^ 48 \<and>
        num_lt (probability (predictSurvival64 pm)) (probability (predictSurvival64 pf)) \<and>
        (0 \<le> sm \<and> sf \<le> 1 \<longrightarrow>
           probability (predictSurvival64 pm) = Fin sm \<and>
           probability (predictSurvival64 pf) = Fin sf)"
    using s by (simp add: probability64_fin [OF sm(1)] probability64_fin [OF sf(1)])
  moreover
  have "\<bar>s1 - s3 - 0.35\<bar> \<le> 1 / 2 ^ 48 \<and>
        num_lt (probability (predictSurvival64 p3)) (probability (predictSurvival64 p1)) \<and>
        (0 \<le> s3 \<and> s1 \<le> 1 \<longrightarrow>
           probability (predictSurvival64 p3) = Fin s3 \<and>
           probability (predictSurvival64 p1) = Fin s1)"
    using c by (simp add: probability64_fin [OF s3(1)] probability64_fin [OF s1(1)])
  ultimately show ?thesis using sm(1) sf(1) s3(1) s1(1) by blast
qed

text \<open>
  For a child of one year neither score is clamped: the probabilities are 0.2 and
  0.7999999999999999, whose difference is not the double 0.6, and 0.2 and 0.55 for the
  classes, whose difference is not the double 0.35.
\<close>

theorem sex_and_class_change_in_doubles_witness:
  "num_ge (score64 (emptyPassenger\<lparr>Age := Val (Fin 1), Sex := Val ''male''\<rparr>)) (Fin 0) \<and>
   num_ge (Fin 1) (score64 (emptyPassenger\<lparr>Age := Val (Fin 1), Sex := Val ''female''\<rparr>)) \<and>
   probability (predictSurvival64 (emptyPassenger\<lparr>Age := Val (Fin 1), Sex := Val ''male''\<rparr>)) =
     Fin (3602879701896397 / 2 ^ 54) \<and>
   probability (predictSurvival64 (emptyPassenger\<lparr>Age := Val (Fin 1), Sex := Val ''female''\<rparr>)) =
     Fin (7205759403792793 / 2 ^ 53) \<and>
   dsub (Fin (7205759403792793 / 2 ^ 53)) (Fin (3602879701896397 / 2 ^ 54)) \<noteq> dbl 0.6 \<and>
   num_ge (score64 (emptyPassenger\<lparr>Age := Val (Fin 1), Pclass := Val (Fin 3)\<rparr>)) (Fin 0) \<and>
   num_ge (Fin 1) (score64 (emptyPassenger\<lparr>Age := Val (Fin 1), Pclass := Val (Fin 1)\<rparr>)) \<and>
   probability (predictSurvival64 (emptyPassenger\<lparr>Age := Val (Fin 1), Pclass := Val (Fin 3)\<rparr>)) =
     Fin (3602879701896397 / 2 ^ 54) \<and>
   probability (predictSurvival64 (emptyPassenger\<lparr>Age := Val (Fin 1), Pclass := Val (Fin 1)\<rparr>)) =
     Fin (2476979795053773 / 2 ^ 52) \<and>
   dsub (Fin (2476979795053773 / 2 ^ 52)) (Fin (3602879701896397 / 2 ^ 54)) \<noteq> dbl 0.35"
proof -
  have rounding: "dsub (Fin (7205759403792793 / 2 ^ 53)) (Fin (3602879701896397 / 2 ^ 54)) \<noteq> dbl 0.6"
    "dsub (Fin (2476979795053773 / 2 ^ 52)) (Fin (3602879701896397 / 2 ^ 54)) \<noteq> dbl 0.35"
    by (simp_all add: dsub_def rd_eval)
  show ?thesis
    using sex_and_class_change_in_doubles [of "emptyPassenger\<lparr>Age := Val (Fin 1)\<rparr>"] rounding
    by (auto simp: child_scores64)
qed

text \<open>
  C4 as stated fails: a NaN class is not 1 and not 2, so the class block takes its last
  branch and subtracts 0.15; a NaN sibling count is replaced by 0, so with two parents or
  children the family size is 2 and the family block adds 0.05.
\<close>

theorem nan_skips_rule_counterexample:
  "contribution (classRule (emptyPassenger\<lparr>Pclass := Val NaN\<rparr>)) \<noteq> 0 \<and>
   contribution (familyRule (emptyPassenger\<lparr>SibSp := Val NaN, Parch := Val (Fin 2)\<rparr>)) \<noteq> 0 \<and>
   contribution (familyRule (emptyPassenger\<lparr>SibSp := Val (Fin 2), Parch := Val NaN\<rparr>)) \<noteq> 0"
  by (simp add: contribution_def rule_defs num_sub_def num_gt_def emptyPassenger_def)

text \<open>
  C4, amended. A NaN in a numeric property never makes the scorer fail. A NaN age is
  replaced by 30 and a NaN fare by 15, and the age and fare rules then contribute zero. A
  NaN sibling/spouse count or parent/child count is replaced by 0, so the family rule
  contributes what the other count alone gives, and zero when both are NaN. A NaN class
  takes the last branch of the class rule, which contributes \<open>-0.15\<close>.
\<close>

theorem nan_fields_use_the_fallback:
  "contribution (ageRule (p\<lparr>Age := Val NaN\<rparr>)) = 0 \<and>
   contribution (fareRule (p\<lparr>Fare := Val NaN\<rparr>)) = 0 \<and>
   contribution (classRule (p\<lparr>Pclass := Val NaN\<rparr>)) = - 0.15 \<and>
   familyRule (p\<lparr>SibSp := Val NaN\<rparr>) = familyRule (p\<lparr>SibSp := Val (Fin 0)\<rparr>) \<and>
   familyRule (p\<lparr>Parch := Val NaN\<rparr>) = familyRule (p\<lparr>Parch := Val (Fin 0)\<rparr>) \<and>
   contribution (familyRule (p\<lparr>SibSp := Val NaN, Parch := Val NaN\<rparr>)) = 0 \<and>
   (\<exists>pr. probability (predictSurvival
            (p\<lparr>Pclass := Val NaN, Age := Val NaN, SibSp := Val NaN, Parch := Val NaN,
              Fare := Val NaN\<rparr>)) = Fin pr)"
  by (simp add: contribution_def rule_defs num_sub_def num_gt_def fun_eq_iff probability_fin)

theorem nan_fields_use_the_fallback_witness:
  "contribution (ageRule (firstClassGirl\<lparr>Age := Val NaN\<rparr>)) = 0 \<and>
   contribution (fareRule (firstClassGirl\<lparr>Fare := Val NaN\<rparr>)) = 0 \<and>
   contribution (classRule (firstClassGirl\<lparr>Pclass := Val NaN\<rparr>)) = - 0.15 \<and>
   contribution (familyRule (firstClassGirl\<lparr>SibSp := Val NaN\<rparr>)) = 0.05 \<and>
   contribution (familyRule (firstClassGirl\<lparr>SibSp := Val NaN, Parch := Val NaN\<rparr>)) = 0"
  using nan_fields_use_the_fallback [of firstClassGirl]
  by (simp add: contribution_def familyRule_def num_gt_def firstClassGirl_def emptyPassenger_def)

text \<open>
  C9. The port of embarkation does not affect the result: two inputs of
  \<open>predictSurvival\<close> that differ only in \<open>Embarked\<close> get the same probability and the
  same verdict, and so do two form inputs that differ only in \<open>embarked\<close>.
\<close>

theorem embarked_does_not_affect_the_score:
  "predictSurvival (p\<lparr>Embarked := e\<rparr>) = predictSurvival p \<and>
   handlePredict (i\<lparr>embarked := e'\<rparr>) = handlePredict i"
proof -
  have ignore: "predictSurvival (q\<lparr>Embarked := x\<rparr>) = predictSurvival q" for q x
    by (rule same_rules_same_result) (simp_all add: rule_defs fun_eq_iff)
  have "handlePredict (i\<lparr>embarked := e'\<rparr>) = handlePredict i"
    by (simp add: handlePredict_def ignore)
  then show ?thesis by (simp add: ignore)
qed

theorem embarked_does_not_affect_the_score_witness:
  "predictSurvival (firstClassGirl\<lparr>Embarked := Val ''Q''\<rparr>) = predictSurvival firstClassGirl \<and>
   handlePredict (defaultInput\<lparr>embarked := ''C''\<rparr>) = handlePredict defaultInput"
  by (rule embarked_does_not_affect_the_score)

text \<open>
  C10. The scorer treats a zero like an absent value. With an age of 0 the result is the
  one for an absent age (undefined or null): 30 is used and the child adjustment is not
  applied. With a fare of 0 the result is the one for an absent fare: 15 is used and the
  low-fare penalty is not applied.
\<close>

theorem zero_is_treated_as_absent:
  "predictSurvival (p\<lparr>Age := Val (Fin 0)\<rparr>) = predictSurvival (p\<lparr>Age := Undefined\<rparr>) \<and>
   predictSurvival (p\<lparr>Age := Val (Fin 0)\<rparr>) = predictSurvival (p\<lparr>Age := Null\<rparr>) \<and>
   predictSurvival (p\<lparr>Age := Val (Fin 0)\<rparr>) = predictSurvival (p\<lparr>Age := Val (Fin 30)\<rparr>) \<and>
   contribution (ageRule (p\<lparr>Age := Val (Fin 0)\<rparr>)) = 0 \<and>
   predictSurvival (p\<lparr>Fare := Val (Fin 0)\<rparr>) = predictSurvival (p\<lparr>Fare := Undefined\<rparr>) \<and>
   predictSurvival (p\<lparr>Fare := Val (Fin 0)\<rparr>) = predictSurvival (p\<lparr>Fare := Null\<rparr>) \<and>
   predictSurvival (p\<lparr>Fare := Val (Fin 0)\<rparr>) = predictSurvival (p\<lparr>Fare := Val (Fin 15)\<rparr>) \<and>
   contribution (fareRule (p\<lparr>Fare := Val (Fin 0)\<rparr>)) = 0"
proof -
  have age: "ageRule (p\<lparr>Age := Val (Fin 0)\<rparr>) = ageRule (p\<lparr>Age := x\<rparr>)"
    if "x = Undefined \<or> x = Null \<or> x = Val (Fin 30)" for x
    using that by (auto simp: ageRule_def fun_eq_iff)
  have fare: "fareRule (p\<lparr>Fare := Val (Fin 0)\<rparr>) = fareRule (p\<lparr>Fare := x\<rparr>)"
    if "x = Undefined \<or> x = Null \<or> x = Val (Fin 15)" for x
    using that by (auto simp: fareRule_def fun_eq_iff)
  have "predictSurvival (p\<lparr>Age := Val (Fin 0)\<rparr>) = predictSurvival (p\<lparr>Age := x\<rparr>)"
    if "x = Undefined \<or> x = Null \<or> x = Val (Fin 30)" for x
    by (rule same_rules_same_result) (simp_all add: age [OF that] other_rules_ignore_age)
  moreover
  have "predictSurvival (p\<lparr>Fare := Val (Fin 0)\<rparr>) = predictSurvival (p\<lparr>Fare := x\<rparr>)"
    if "x = Undefined \<or> x = Null \<or> x = Val (Fin 15)" for x
    by (rule same_rules_same_result) (simp_all add: fare [OF that] other_rules_ignore_fare)
  moreover have "contribution (ageRule (p\<lparr>Age := Val (Fin 0)\<rparr>)) = 0"
    by (simp add: age_contribution)
  moreover have "contribution (fareRule (p\<lparr>Fare := Val (Fin 0)\<rparr>)) = 0"
    by (simp add: contribution_def fareRule_def num_gt_def)
  ultimately show ?thesis by simp
qed

theorem zero_is_treated_as_absent_witness:
  "predictSurvival (firstClassGirl\<lparr>Age := Val (Fin 0)\<rparr>) =
     predictSurvival (firstClassGirl\<lparr>Age := Undefined\<rparr>) \<and>
   contribution (ageRule (firstClassGirl\<lparr>Age := Val (Fin 0)\<rparr>)) = 0 \<and>
   predictSurvival (firstClassGirl\<lparr>Fare := Val (Fin 0)\<rparr>) =
     predictSurvival (firstClassGirl\<lparr>Fare := Undefined\<rparr>) \<and>
   contribution (fareRule (firstClassGirl\<lparr>Fare := Val (Fin 0)\<rparr>)) = 0"
  using zero_is_treated_as_absent [of firstClassGirl] by simp

section \<open>Lemmas about the line splitter\<close>

text \<open>
  Characters other than the quote are appended to the current field: all of them inside
  quotes, all but the comma outside.
\<close>

lemma plain_chars:
  "dquote \<notin> set f \<Longrightarrow> comma \<notin> set f \<or> inQuotes st \<Longrightarrow>
   foldl lineStep st f = st\<lparr>current := current st @ f\<rparr>"
proof (induction f arbitrary: st)
  case Nil
  then show ?case by simp
next
  case (Cons c f)
  let ?st1 = "st\<lparr>current := current st @ [c]\<rparr>"
  have step: "lineStep st c = ?st1"
    using Cons.prems by (auto simp: lineStep_def)
  have "foldl lineStep ?st1 f = ?st1\<lparr>current := current ?st1 @ f\<rparr>"
    using Cons.prems by (intro Cons.IH) auto
  then show ?case by (simp add: step)
qed

lemma quoted_chars:
  assumes "dquote \<notin> set t" "\<not> inQuotes st"
  shows "foldl lineStep st (quoted t) = st\<lparr>current := current st @ t\<rparr>"
proof -
  have opens: "lineStep st dquote = st\<lparr>inQuotes := True\<rparr>"
    using assms by (simp add: lineStep_def)
  have inner: "foldl lineStep (st\<lparr>inQuotes := True\<rparr>) t =
               st\<lparr>inQuotes := True, current := current st @ t\<rparr>"
    using plain_chars [of t "st\<lparr>inQuotes := True\<rparr>"] assms by simp
  have closes: "lineStep (st\<lparr>inQuotes := True, current := current st @ t\<rparr>) dquote =
                 st\<lparr>current := current st @ t\<rparr>"
    using assms by (simp add: lineStep_def)
  show ?thesis
    by (simp add: quoted_def opens inner closes)
qed

lemma written_field:
  "writable f \<Longrightarrow> \<not> inQuotes st \<Longrightarrow>
   foldl lineStep st (writeField f) = st\<lparr>current := current st @ snd f\<rparr>"
  by (auto simp: writable_def writeField_def quoted_chars plain_chars)

lemma unquoted_comma:
  "\<not> inQuotes st \<Longrightarrow>
   lineStep st comma = st\<lparr>result := result st @ [current st], current := []\<rparr>"
  by (simp add: lineStep_def)

lemma written_line:
  "fs \<noteq> [] \<Longrightarrow> \<forall>f\<in>set fs. writable f \<Longrightarrow> \<not> inQuotes st \<Longrightarrow>
   foldl lineStep st (writeLine fs) =
     st\<lparr>result := result st @ butlast ((current st @ snd (hd fs)) # map snd (tl fs)),
        current := last ((current st @ snd (hd fs)) # map snd (tl fs))\<rparr>"
proof (induction fs arbitrary: st)
  case Nil
  then show ?case by simp
next
  case (Cons f fs)
  show ?case
  proof (cases fs)
    case Nil
    then show ?thesis using Cons.prems by (simp add: writeLine_def written_field)
  next
    case (Cons g gs)
    let ?st1 = "st\<lparr>result := result st @ [current st @ snd f], current := []\<rparr>"
    have line: "writeLine (f # fs) = writeField f @ comma # writeLine fs"
      using Cons by (simp add: writeLine_def)
    have "foldl lineStep st (writeLine (f # fs)) = foldl lineStep ?st1 (writeLine fs)"
      using Cons.prems by (simp add: line written_field unquoted_comma)
    also have "\<dots> =
      ?st1\<lparr>result := result ?st1 @ butlast ((current ?st1 @ snd (hd fs)) # map snd (tl fs)),
           current := last ((current ?st1 @ snd (hd fs)) # map snd (tl fs))\<rparr>"
      using Cons.prems Cons by (intro Cons.IH) auto
    finally show ?thesis using Cons by simp
  qed
qed

text \<open>Parsing a written line gives back the texts of its fields.\<close>

lemma parse_written_line:
  assumes "fs \<noteq> []" "\<forall>f\<in>set fs. writable f"
  shows "parseCSVLine (writeLine fs) = map snd fs"
proof -
  let ?st = "\<lparr>result = [], current = [], inQuotes = False\<rparr>"
  have "foldl lineStep ?st (writeLine fs) =
     ?st\<lparr>result := result ?st @ butlast ((current ?st @ snd (hd fs)) # map snd (tl fs)),
        current := last ((current ?st @ snd (hd fs)) # map snd (tl fs))\<rparr>"
    using assms by (intro written_line) auto
  moreover have "snd (hd fs) # map snd (tl fs) = map snd fs"
    using assms(1) by (cases fs) auto
  ultimately show ?thesis
    using assms(1) by (simp add: parseCSVLine_def lineLoop_def Let_def)
qed

lemma join_snoc: "xs \<noteq> [] \<Longrightarrow> join_str sep (xs @ [y]) = join_str sep xs @ sep # y"
  by (induction sep xs rule: join_str.induct) auto

text \<open>
  The loop loses no character but the quotes: the fields so far, joined by commas, are the
  text read so far without its quotes. The flag \<open>inQuotes\<close> plays no part in it.
\<close>

lemma loop_keeps_text:
  "join_str comma (result (foldl lineStep st line) @ [current (foldl lineStep st line)]) =
   join_str comma (result st @ [current st]) @ stripQuotes line"
proof (induction line arbitrary: st)
  case Nil
  then show ?case by (simp add: stripQuotes_def)
next
  case (Cons c line)
  have "join_str comma (result (lineStep st c) @ [current (lineStep st c)]) =
        join_str comma (result st @ [current st]) @ stripQuotes [c]"
  proof (cases "result st = []")
    case True
    then show ?thesis by (simp add: lineStep_def stripQuotes_def)
  next
    case False
    then show ?thesis by (simp add: lineStep_def stripQuotes_def join_snoc)
  qed
  then show ?case
    using Cons.IH [of "lineStep st c"] by (simp add: stripQuotes_def)
qed

section \<open>Lemmas about splitting and trimming\<close>

lemma split_str_nonempty: "split_str sep s \<noteq> []"
  by (induction s) (auto split: list.splits)

lemma split_no_sep: "sep \<notin> set l \<Longrightarrow> split_str sep l = [l]"
  by (induction l) auto

lemma split_piece: "sep \<notin> set l \<Longrightarrow> split_str sep (l @ sep # rest) = l # split_str sep rest"
  by (induction l) auto

lemma split_join:
  "ls \<noteq> [] \<Longrightarrow> \<forall>l\<in>set ls. sep \<notin> set l \<Longrightarrow> split_str sep (join_str sep ls) = ls"
  by (induction sep ls rule: join_str.induct) (auto simp: split_no_sep split_piece)

lemma trim_padding:
  assumes "body \<noteq> []" "\<not> is_ws (hd body)" "\<not> is_ws (last body)"
    and "\<forall>c\<in>set pre. is_ws c" "\<forall>c\<in>set post. is_ws c"
  shows "trim (pre @ body @ post) = body"
proof -
  have front: "dropWhile is_ws (pre @ body @ post) = body @ post"
    using assms(1,2,4) by (cases body) (auto simp: dropWhile_append)
  have "rev body \<noteq> []" "\<not> is_ws (hd (rev body))"
    using assms(1,3) by (simp_all add: hd_rev)
  then have rear: "dropWhile is_ws (rev post @ rev body) = rev body"
    using assms(5) by (cases "rev body") (auto simp: dropWhile_append)
  show ?thesis by (simp add: trim_def front rear)
qed

section \<open>Lemmas about the summarizer\<close>

lemma countCorrect_step: "c \<le> countCorrect c p \<and> countCorrect c p \<le> c + 1"
  by (simp add: countCorrect_def Let_def)

lemma correct_bounds:
  "c \<le> foldl countCorrect c ps \<and> foldl countCorrect c ps \<le> c + int (length ps)"
proof (induction ps arbitrary: c)
  case Nil
  then show ?case by simp
next
  case (Cons p ps)
  from Cons.IH [of "countCorrect c p"] countCorrect_step [of c p]
  show ?case by auto
qed

text \<open>On the empty sequence the division is \<open>0 / 0\<close> and the accuracy is NaN.\<close>

lemma accuracy_of_no_passengers: "accuracy (calculateModelStats []) = NaN"
  by (simp add: calculateModelStats_def)

lemma counts_add_up:
  "survivedCount (calculateModelStats ps) + deathCount (calculateModelStats ps) =
   totalPassengers (calculateModelStats ps)"
  by (simp add: calculateModelStats_def Let_def)

section \<open>Claims about the CSV parser\<close>

text \<open>
  C5. Round trip of a quoted field. A text without quote characters, commas allowed, is
  written wrapped in double quotes into a line, between any fields written before and after
  it. \<open>parseCSVLine\<close> returns the text as one field at its position, with its commas, and
  the quote-stripping step of \<open>parseCSV\<close> leaves it as it is.
\<close>

theorem quoted_field_round_trip:
  assumes "dquote \<notin> set t" and "\<forall>f\<in>set (pre @ post). writable f"
  shows "parseCSVLine (writeLine (pre @ [(True, t)] @ post)) =
           map snd pre @ [t] @ map snd post \<and>
         fieldValue (parseCSVLine (writeLine (pre @ [(True, t)] @ post))) (length pre) = t"
proof -
  have "\<forall>f\<in>set (pre @ [(True, t)] @ post). writable f"
    using assms by (auto simp: writable_def)
  then have parsed: "parseCSVLine (writeLine (pre @ [(True, t)] @ post)) =
                     map snd pre @ [t] @ map snd post"
    by (subst parse_written_line) auto
  have "stripQuotes t = t"
    using assms(1) by (auto simp: stripQuotes_def filter_id_conv)
  then have "fieldValue (map snd pre @ [t] @ map snd post) (length pre) = t"
    by (simp add: fieldValue_def nth_append Let_def)
  then show ?thesis using parsed by simp
qed

theorem quoted_field_round_trip_witness:
  "comma \<in> set ''Kelly, Mr. James'' \<and> dquote \<notin> set ''Kelly, Mr. James'' \<and>
   writeLine [(False, ''892''), (True, ''Kelly, Mr. James''), (False, ''male'')] =
     ''892,'' @ quoted ''Kelly, Mr. James'' @ '',male'' \<and>
   parseCSVLine (writeLine [(False, ''892''), (True, ''Kelly, Mr. James''), (False, ''male'')]) =
     [''892'', ''Kelly, Mr. James'', ''male''] \<and>
   fieldValue
     (parseCSVLine (writeLine [(False, ''892''), (True, ''Kelly, Mr. James''), (False, ''male'')]))
     1 = ''Kelly, Mr. James''"
  using quoted_field_round_trip
    [of "''Kelly, Mr. James''" "[(False, ''892'')]" "[(False, ''male'')]"]
  by (simp add: writable_def writeLine_def writeField_def fieldValue_def stripQuotes_def)

text \<open>
  C6. One record per data line, in the order of the lines. The text is a header line and
  data lines joined by line feeds, with any white space before and after; a line holds no
  line feed, and the first and the last character of the joined lines are not white space
  (\<open>trim\<close> would remove them). Then \<open>parseCSV\<close> returns the records of the data lines in
  their order, so the number of records is the number of lines minus one.
\<close>

theorem parseCSV_one_record_per_line:
  assumes "\<forall>l\<in>set (header # rows). newline \<notin> set l"
    and "body = join_str newline (header # rows)"
    and "body \<noteq> []" "\<not> is_ws (hd body)" "\<not> is_ws (last body)"
    and "\<forall>c\<in>set pre \<union> set post. is_ws c"
  shows "parseCSV parseInt parseFloat (pre @ body @ post) =
           map (lineToPassenger parseInt parseFloat (split_str comma header)) rows \<and>
         length (parseCSV parseInt parseFloat (pre @ body @ post)) = length (header # rows) - 1"
proof -
  have "trim (pre @ body @ post) = body"
    using assms(3-6) by (intro trim_padding) auto
  moreover have "split_str newline body = header # rows"
    unfolding assms(2) using assms(1) by (intro split_join) auto
  ultimately show ?thesis by (simp add: parseCSV_def Let_def)
qed

theorem parseCSV_one_record_per_line_witness:
  "parseCSV (\<lambda>v. NaN) (\<lambda>v. NaN)
     (join_str newline [''Survived,Sex'', ''1,female'', ''0,male''] @ [newline]) =
     map (lineToPassenger (\<lambda>v. NaN) (\<lambda>v. NaN) (split_str comma ''Survived,Sex''))
       [''1,female'', ''0,male''] \<and>
   length (parseCSV (\<lambda>v. NaN) (\<lambda>v. NaN)
     (join_str newline [''Survived,Sex'', ''1,female'', ''0,male''] @ [newline])) = 2"
  using parseCSV_one_record_per_line
    [of "''Survived,Sex''" "[''1,female'', ''0,male'']"
        "join_str newline [''Survived,Sex'', ''1,female'', ''0,male'']" "[]" "[newline]"
        "\<lambda>v. NaN" "\<lambda>v. NaN"]
  by (simp add: is_ws_def)

text \<open>
  C7. \<open>parseCSVLine\<close> always returns at least one field. Its last field is the value of
  \<open>current\<close> when the loop ends, whatever the value of \<open>inQuotes\<close> then, also when the
  quotes of the line are unbalanced. No character other than a quote is lost: the returned
  fields, joined by commas, are the line without its quotes.
\<close>

theorem parseCSVLine_flushes_last_field:
  "parseCSVLine line \<noteq> [] \<and>
   last (parseCSVLine line) = current (lineLoop line) \<and>
   join_str comma (parseCSVLine line) = stripQuotes line"
  using loop_keeps_text [of "\<lparr>result = [], current = [], inQuotes = False\<rparr>" line]
  by (simp add: parseCSVLine_def lineLoop_def Let_def)

theorem parseCSVLine_flushes_last_field_witness:
  "inQuotes (lineLoop (''a,'' @ dquote # ''b,c'')) \<and>
   parseCSVLine (''a,'' @ dquote # ''b,c'') = [''a'', ''b,c''] \<and>
   last (parseCSVLine (''a,'' @ dquote # ''b,c'')) = ''b,c'' \<and>
   join_str comma (parseCSVLine (''a,'' @ dquote # ''b,c'')) = ''a,b,c''"
  using parseCSVLine_flushes_last_field [of "''a,'' @ dquote # ''b,c''"]
  by (simp add: parseCSVLine_def lineLoop_def lineStep_def stripQuotes_def)

section \<open>Claims about the summarizer\<close>

text \<open>
  C8. For every sequence of records that is not empty, the accuracy computed by
  \<open>calculateModelStats\<close> is a finite number between 0 and 100.
\<close>

theorem accuracy_within_0_100:
  assumes "passengers \<noteq> []"
  shows "\<exists>a. accuracy (calculateModelStats passengers) = Fin a \<and> 0 \<le> a \<and> a \<le> 100"
proof -
  let ?n = "int (length passengers)"
  let ?c = "foldl countCorrect 0 passengers"
  have n: "0 < ?n" using assms by simp
  have c: "0 \<le> ?c" "?c \<le> ?n" using correct_bounds [of 0 passengers] by auto
  have acc: "accuracy (calculateModelStats passengers) =
             Fin (real_of_int ?c / real_of_int ?n * 100)"
    using n by (simp add: calculateModelStats_def Let_def)
  have "0 \<le> real_of_int ?c / real_of_int ?n * 100" using c n by simp
  moreover have "real_of_int ?c / real_of_int ?n * 100 \<le> 100"
    using c n by (simp add: field_simps)
  ultimately show ?thesis using acc by blast
qed

theorem accuracy_within_0_100_witness:
  "[firstClassGirl\<lparr>Survived := Val (Fin 1)\<rparr>, emptyPassenger\<lparr>Survived := Val (Fin 1)\<rparr>] \<noteq> [] \<and>
   (\<exists>a. accuracy (calculateModelStats
           [firstClassGirl\<lparr>Survived := Val (Fin 1)\<rparr>, emptyPassenger\<lparr>Survived := Val (Fin 1)\<rparr>])
         = Fin a \<and> 0 \<le> a \<and> a \<le> 100)"
  using accuracy_within_0_100
    [of "[firstClassGirl\<lparr>Survived := Val (Fin 1)\<rparr>, emptyPassenger\<lparr>Survived := Val (Fin 1)\<rparr>]"]
  by simp

end
